theory Spec2Isabelle
  imports Main "HOL-Library.Char_ord" "HOL-Library.List_Lexorder"
begin

section \<open>Failures\<close>

text \<open>
  A Go call either returns or does not. The ways of not returning that the modelled
  code can reach are a nil pointer dereference, an index out of range, and a call
  that never comes back (the recursion of the path resolver along a cyclic parent
  chain). They are values of the model: a function that can fail returns
  \<open>failure + 'a\<close>, with \<open>Inl\<close> the failure.
\<close>

datatype failure = NilPointerDereference | IndexOutOfRange | NoReturn

section \<open>Library functions used by the code\<close>

text \<open>
  The packages \<open>strings\<close> and \<open>path\<close> of the Go standard library and the package
  \<open>github.com/dimfeld/httppath\<close> are not part of the repository. The functions the
  code calls are modelled here after their published sources. A Go string is a
  sequence of bytes: \<open>string\<close>.
\<close>

text \<open>\<open>strings.HasPrefix(s, prefix)\<close>: \<open>len(s) >= len(prefix) && s[:len(prefix)] == prefix\<close>.\<close>

definition HasPrefix :: "string \<Rightarrow> string \<Rightarrow> bool" where
  "HasPrefix s pre = (length s \<ge> length pre \<and> take (length pre) s = pre)"

text \<open>\<open>strings.Join(elems, sep)\<close>.\<close>

fun strings_Join :: "string list \<Rightarrow> string \<Rightarrow> string" where
  "strings_Join [] sep = ''''"
| "strings_Join [a] sep = a"
| "strings_Join (a # b # cs) sep = a @ sep @ strings_Join (b # cs) sep"

text \<open>
  Both cleaners write into a buffer of which the first \<open>w\<close> bytes are the output so
  far; the model keeps exactly these \<open>w\<close> bytes, as the list \<open>out\<close>. Backtracking
  over a \<open>..\<close> element is
  \<^verbatim>\<open>out.w--; for out.w > dotdot && out.index(out.w) != '/' { out.w-- }\<close>:
  the last byte goes, and while more than \<open>dotdot\<close> bytes are left and the byte that
  just went is not a slash, the next one goes.
\<close>

fun backtrack :: "nat \<Rightarrow> string \<Rightarrow> string" where
  "backtrack dotdot [] = []"
| "backtrack dotdot (c # cs) =
     (let out = butlast (c # cs); gone = last (c # cs)
      in if length out > dotdot \<and> gone \<noteq> CHR ''/'' then backtrack dotdot out else out)"

text \<open>
  The loop of \<open>path.Clean\<close>. \<open>rest\<close> is \<open>path[r:]\<close>. The four cases are the four
  cases of the \<^verbatim>\<open>switch\<close>, in its order: an empty element, a \<open>.\<close> element, a \<open>..\<close>
  element, a real element (copied up to the next slash).
\<close>

function path_Clean_loop :: "bool \<Rightarrow> string \<Rightarrow> string \<Rightarrow> nat \<Rightarrow> string" where
  "path_Clean_loop rooted [] out dotdot = out"
| "path_Clean_loop rooted (c # cs) out dotdot =
     (if c = CHR ''/'' then path_Clean_loop rooted cs out dotdot
      else if c = CHR ''.'' \<and> (cs = [] \<or> hd cs = CHR ''/'') then
        path_Clean_loop rooted cs out dotdot
      else if c = CHR ''.'' \<and> hd cs = CHR ''.'' \<and> (tl cs = [] \<or> hd (tl cs) = CHR ''/'') then
        (if length out > dotdot then
           path_Clean_loop rooted (tl cs) (backtrack dotdot out) dotdot
         else if \<not> rooted then
           (let out' = (if length out > 0 then out @ ''/'' else out) @ ''..''
            in path_Clean_loop rooted (tl cs) out' (length out'))
         else path_Clean_loop rooted (tl cs) out dotdot)
      else
        (let out' = (if rooted \<and> length out \<noteq> 1 \<or> \<not> rooted \<and> length out \<noteq> 0
                     then out @ ''/'' else out)
         in path_Clean_loop rooted (dropWhile (\<lambda>x. x \<noteq> CHR ''/'') cs)
              (out' @ c # takeWhile (\<lambda>x. x \<noteq> CHR ''/'') cs) dotdot))"
  by pat_completeness auto
termination
  by (relation "measure (\<lambda>(rooted, rest, out, dotdot). length rest)")
     (auto simp: length_dropWhile_le less_Suc_eq_le)

text \<open>\<open>path.Clean(path)\<close>: the empty path and the empty result are \<open>"."\<close>.\<close>

definition path_Clean :: "string \<Rightarrow> string" where
  "path_Clean path =
     (if path = '''' then ''.''
      else
        (let rooted = (hd path = CHR ''/'');
             out = (if rooted then path_Clean_loop rooted (tl path) ''/'' 1
                    else path_Clean_loop rooted path [] 0)
         in if length out = 0 then ''.'' else out))"

text \<open>
  \<open>path.Join(elem...)\<close>: leading empty elements are ignored, the others are joined
  with slashes and the result is cleaned; with no non-empty element the result is the
  empty string.
\<close>

fun path_Join :: "string list \<Rightarrow> string" where
  "path_Join [] = ''''"
| "path_Join (e # es) =
     (if e \<noteq> '''' then path_Clean (strings_Join (e # es) ''/'') else path_Join es)"

text \<open>
  The loop of \<open>httppath.Clean\<close>. The output always starts with a slash, so
  backtracking stops at one byte. A trailing \<open>.\<close> element sets \<open>trailing\<close>; a \<open>.\<close>
  and a \<open>..\<close> element are skipped together with the slash that ends them
  (\<open>r += 2\<close>, \<open>r += 3\<close>). The loop returns the output and the flag.
\<close>

function httppath_Clean_loop :: "string \<Rightarrow> string \<Rightarrow> bool \<Rightarrow> string \<times> bool" where
  "httppath_Clean_loop [] out trailing = (out, trailing)"
| "httppath_Clean_loop (c # cs) out trailing =
     (if c = CHR ''/'' then httppath_Clean_loop cs out trailing
      else if c = CHR ''.'' \<and> cs = [] then httppath_Clean_loop cs out True
      else if c = CHR ''.'' \<and> hd cs = CHR ''/'' then httppath_Clean_loop (tl cs) out trailing
      else if c = CHR ''.'' \<and> hd cs = CHR ''.'' \<and> (tl cs = [] \<or> hd (tl cs) = CHR ''/'') then
        httppath_Clean_loop (tl (tl cs)) (if length out > 1 then backtrack 1 out else out)
          trailing
      else
        (let out' = (if length out > 1 then out @ ''/'' else out)
         in httppath_Clean_loop (dropWhile (\<lambda>x. x \<noteq> CHR ''/'') cs)
              (out' @ c # takeWhile (\<lambda>x. x \<noteq> CHR ''/'') cs) trailing))"
  by pat_completeness auto
termination
  by (relation "measure (\<lambda>(rest, out, trailing). length rest)")
     (auto simp: length_dropWhile_le less_Suc_eq_le)

text \<open>
  \<open>httppath.Clean(p)\<close>: the empty path is \<open>"/"\<close>; a missing leading slash is added;
  a trailing slash of a path of more than two bytes is kept.
\<close>

definition httppath_Clean :: "string \<Rightarrow> string" where
  "httppath_Clean p =
     (if p = '''' then ''/''
      else
        (let n = length p;
             rest = (if hd p \<noteq> CHR ''/'' then p else tl p);
             trailing = (n > 2 \<and> last p = CHR ''/'');
             (out, trailing') = httppath_Clean_loop rest ''/'' trailing
         in if trailing' \<and> length out > 1 then out @ ''/'' else out))"

section \<open>The expressions of an HTTP service\<close>

text \<open>
  \<open>url.URL\<close> of the standard library, with the fields a scheme and a host. The code
  reads \<open>Scheme\<close> only.
\<close>

record url_URL =
  Scheme :: string
  Host :: string

text \<open>
  Modelled from the spec: the structs \<open>ServerExpr\<close> and \<open>ServiceExpr\<close>, whose
  declarations are missing. The spec has a server be a URL naming an API host, owned
  by the API or by a service in a list ordered by appending. Of a service the code
  reads the name, the description and the servers.
\<close>

record ServerExpr =
  URL :: string

record ServiceExpr =
  Name :: string
  Description :: string
  Servers :: "ServerExpr list"

text \<open>
  Modelled from the spec: the struct \<open>HTTPEndpointExpr\<close> and its method \<open>Name()\<close>,
  whose declarations are missing. The spec has an endpoint hold its routes;
  \<open>EndpointName\<close> is what \<open>Name()\<close> returns and \<open>Routes\<close> is the list of routes. The
  struct of a route is missing too: a route is a value of the type parameter \<open>'r\<close>.
\<close>

record 'r HTTPEndpointExpr =
  EndpointName :: string
  Routes :: "'r list"

text \<open>
  The struct \<open>HTTPServiceExpr\<close>. \<open>Params\<close> and \<open>Headers\<close> are pointers, nil being
  \<open>None\<close>, to mapped attributes (type parameter \<open>'m\<close>); an HTTP error is a value of the
  type parameter \<open>'e\<close>. The fields \<open>DSLFunc\<close>, \<open>FileServers\<close> and \<open>Meta\<close> are read by
  none of the functions below and are left out.
\<close>

record ('r, 'm, 'e) HTTPServiceExpr =
  ServiceExpr :: ServiceExpr
  Paths :: "string list"
  Params :: "'m option"
  Headers :: "'m option"
  ParentName :: string
  CanonicalEndpointName :: string
  HTTPEndpoints :: "'r HTTPEndpointExpr list"
  HTTPErrors :: "'e list"

text \<open>
  Modelled from the spec: the struct \<open>HTTPExpr\<close> of \<open>Root.API.HTTP\<close>, whose
  declaration is missing. The code reads its root path, its services and the errors
  declared at the level of the API. Every function below that reads the global \<open>Root\<close>
  takes this value as the argument \<open>http\<close>.
\<close>

record ('r, 'm, 'e) HTTPExpr =
  Path :: string
  Services :: "('r, 'm, 'e) HTTPServiceExpr list"
  Errors :: "'e list"

text \<open>\<open>svc.Name()\<close>.\<close>

definition ServiceName :: "('r, 'm, 'e) HTTPServiceExpr \<Rightarrow> string" where
  "ServiceName svc = Name (ServiceExpr svc)"

text \<open>
  Modelled from the spec: the method \<open>HTTPExpr.Service(name)\<close>, whose source is
  missing. The spec makes \<open>ParentName\<close> a by-name lookup among the declared services;
  the model returns the first service with that name, and \<open>None\<close> (nil) when there is
  none.
\<close>

definition Service ::
  "('r, 'm, 'e) HTTPExpr \<Rightarrow> string \<Rightarrow> ('r, 'm, 'e) HTTPServiceExpr option" where
  "Service http name = find (\<lambda>res. ServiceName res = name) (Services http)"

subsection \<open>Schemes\<close>

text \<open>
  \<open>url.Parse\<close> returns a pointer and an error: a pair of options, \<open>None\<close> being nil.
  The function is the parameter \<open>parse\<close>. The map \<open>schemes\<close> has the value \<open>true\<close> at
  every key it holds, so it is its set of keys. In the branch \<open>err != nil\<close> the code
  reads \<open>u.Scheme\<close>, which panics when \<open>u\<close> is nil.
\<close>

fun Schemes_loop ::
  "(string \<Rightarrow> url_URL option \<times> string option) \<Rightarrow> ServerExpr list \<Rightarrow> string set
     \<Rightarrow> failure + string set" where
  "Schemes_loop parse [] schemes = Inr schemes"
| "Schemes_loop parse (s # ss) schemes =
     (case parse (URL s) of
        (u, err) \<Rightarrow>
          if err \<noteq> None then
            (case u of
               None \<Rightarrow> Inl NilPointerDereference
             | Some u' \<Rightarrow> Schemes_loop parse ss (insert (Scheme u') schemes))
          else Schemes_loop parse ss schemes)"

text \<open>
  \<open>Schemes\<close>: nil, the empty list, when no scheme was collected; else the keys,
  sorted by \<open>sort.Strings\<close> (bytewise lexicographic order).
\<close>

definition Schemes ::
  "(string \<Rightarrow> url_URL option \<times> string option) \<Rightarrow> ('r, 'm, 'e) HTTPServiceExpr
     \<Rightarrow> failure + string list" where
  "Schemes parse svc =
     (case Schemes_loop parse (Servers (ServiceExpr svc)) {} of
        Inl f \<Rightarrow> Inl f
      | Inr schemes \<Rightarrow> if schemes = {} then Inr [] else Inr (sorted_list_of_set schemes))"

subsection \<open>Endpoints\<close>

definition Endpoint ::
  "('r, 'm, 'e) HTTPServiceExpr \<Rightarrow> string \<Rightarrow> 'r HTTPEndpointExpr option" where
  "Endpoint svc name = find (\<lambda>a. EndpointName a = name) (HTTPEndpoints svc)"

definition CanonicalEndpoint ::
  "('r, 'm, 'e) HTTPServiceExpr \<Rightarrow> 'r HTTPEndpointExpr option" where
  "CanonicalEndpoint svc =
     (let name = CanonicalEndpointName svc;
          name = (if name = '''' then ''show'' else name)
      in Endpoint svc name)"

text \<open>
  The source of \<open>RouteExpr.FullPaths\<close> is missing: it is the parameter \<open>rfp\<close>, which
  gives for a route the list the call returns, or the failure it ends in.
  \<open>URITemplate\<close> indexes that list at 0, which panics on the empty list.
\<close>

definition URITemplate ::
  "('r \<Rightarrow> failure + string list) \<Rightarrow> ('r, 'm, 'e) HTTPServiceExpr \<Rightarrow> failure + string" where
  "URITemplate rfp svc =
     (case CanonicalEndpoint svc of
        None \<Rightarrow> Inr ''''
      | Some ca \<Rightarrow>
          if length (Routes ca) = 0 then Inr ''''
          else
            (case rfp (Routes ca ! 0) of
               Inl f \<Rightarrow> Inl f
             | Inr [] \<Rightarrow> Inl IndexOutOfRange
             | Inr (p # ps) \<Rightarrow> Inr p))"

subsection \<open>Full paths\<close>

definition Parent ::
  "('r, 'm, 'e) HTTPExpr \<Rightarrow> ('r, 'm, 'e) HTTPServiceExpr
     \<Rightarrow> ('r, 'm, 'e) HTTPServiceExpr option" where
  "Parent http svc =
     (if ParentName svc \<noteq> '''' then
        (case Service http (ParentName svc) of Some parent \<Rightarrow> Some parent | None \<Rightarrow> None)
      else None)"

text \<open>
  The base paths of one fragment (the variable \<open>basePaths\<close> of the loop body): with a
  parent, the full paths of the first route of its canonical endpoint, each passed
  through \<open>path.Join\<close>, and nil when the parent has no canonical endpoint or that has
  no route; without a parent, the root path of the API.
\<close>

definition basePaths ::
  "('r \<Rightarrow> failure + string list) \<Rightarrow> ('r, 'm, 'e) HTTPExpr \<Rightarrow> ('r, 'm, 'e) HTTPServiceExpr
     \<Rightarrow> failure + string list" where
  "basePaths rfp http svc =
     (case Parent http svc of
        Some p \<Rightarrow>
          (case CanonicalEndpoint p of
             Some ca \<Rightarrow>
               (let routes = Routes ca
                in if length routes > 0 then
                     (case rfp (routes ! 0) of
                        Inl f \<Rightarrow> Inl f
                      | Inr fullPaths \<Rightarrow> Inr (map (\<lambda>p. path_Join [p]) fullPaths))
                   else Inr [])
           | None \<Rightarrow> Inr [])
      | None \<Rightarrow> Inr [Path http])"

text \<open>
  The loop over \<open>svc.Paths\<close>, with the list \<open>paths\<close> built so far. A fragment that
  starts with \<open>//\<close> is cleaned and appended, and the loop continues before any base
  path is computed.
\<close>

fun FullPaths_loop ::
  "('r \<Rightarrow> failure + string list) \<Rightarrow> ('r, 'm, 'e) HTTPExpr \<Rightarrow> ('r, 'm, 'e) HTTPServiceExpr
     \<Rightarrow> string list \<Rightarrow> string list \<Rightarrow> failure + string list" where
  "FullPaths_loop rfp http svc [] paths = Inr paths"
| "FullPaths_loop rfp http svc (p # ps) paths =
     (if HasPrefix p ''//'' then
        FullPaths_loop rfp http svc ps (paths @ [httppath_Clean p])
      else
        (case basePaths rfp http svc of
           Inl f \<Rightarrow> Inl f
         | Inr bases \<Rightarrow>
             FullPaths_loop rfp http svc ps
               (paths @ map (\<lambda>base. httppath_Clean (path_Join [base, p])) bases)))"

definition FullPaths ::
  "('r \<Rightarrow> failure + string list) \<Rightarrow> ('r, 'm, 'e) HTTPExpr \<Rightarrow> ('r, 'm, 'e) HTTPServiceExpr
     \<Rightarrow> failure + string list" where
  "FullPaths rfp http svc =
     (if length (Paths svc) = 0 then Inr [path_Join [Path http]]
      else FullPaths_loop rfp http svc (Paths svc) [])"

subsection \<open>Validation\<close>

text \<open>
  Modelled from the spec: the type \<open>eval.ValidationErrors\<close>, whose source is missing.
  The spec has the diagnostics of one call aggregated into a single result: the model
  is the list of the diagnostics in the order they were added, each the name of the
  service it was added for and the formatted message.
\<close>

type_synonym ValidationErrors = "(string \<times> string) list"

text \<open>
  Modelled from the spec: the methods \<open>Add\<close> and \<open>Merge\<close> of
  \<open>eval.ValidationErrors\<close>, whose source is missing. \<open>Add\<close> appends one diagnostic,
  with its message already formatted (every format of the code has the one verb
  \<open>%s\<close>, filled with a string); \<open>Merge\<close> appends the diagnostics of another result.
\<close>

definition Add ::
  "ValidationErrors \<Rightarrow> ('r, 'm, 'e) HTTPServiceExpr \<Rightarrow> string \<Rightarrow> ValidationErrors" where
  "Add verr svc msg = verr @ [(ServiceName svc, msg)]"

definition Merge :: "ValidationErrors \<Rightarrow> ValidationErrors \<Rightarrow> ValidationErrors" where
  "Merge verr other = verr @ other"

text \<open>
  \<open>Validate\<close>. The sources of the validation of mapped attributes and of HTTP errors
  are missing; they are parameters: \<open>mv\<close> gives the diagnostics of
  \<open>MappedAttributeExpr.Validate\<close> for an attribute, its context string and the
  service, \<open>ev\<close> those of \<open>HTTPErrorExpr.Validate\<close>.
\<close>

definition Validate ::
  "('m \<Rightarrow> string \<Rightarrow> ('r, 'm, 'e) HTTPServiceExpr \<Rightarrow> ValidationErrors)
     \<Rightarrow> ('e \<Rightarrow> ValidationErrors) \<Rightarrow> ('r, 'm, 'e) HTTPExpr \<Rightarrow> ('r, 'm, 'e) HTTPServiceExpr
     \<Rightarrow> ValidationErrors" where
  "Validate mv ev http svc =
     (let verr = [];
          verr = (case Params svc of
                    Some ps \<Rightarrow> Merge verr (mv ps ''parameters'' svc)
                  | None \<Rightarrow> verr);
          verr = (case Headers svc of
                    Some hs \<Rightarrow> Merge verr (mv hs ''headers'' svc)
                  | None \<Rightarrow> verr);
          verr = (let n = ParentName svc
                  in if n \<noteq> '''' then
                       (case Service http n of
                          None \<Rightarrow> Add verr svc (''Parent service '' @ n @ '' not found'')
                        | Some p \<Rightarrow>
                            (let verr = (if CanonicalEndpoint p = None then
                                           Add verr svc
                                             (''Parent service '' @ n @ '' has no canonical endpoint'')
                                         else verr)
                             in if ParentName p = ServiceName svc then
                                  Add verr svc (''Parent service '' @ n @ '' is also child'')
                                else verr))
                     else verr);
          verr = (let n = CanonicalEndpointName svc
                  in if n \<noteq> '''' then
                       (case Endpoint svc n of
                          None \<Rightarrow> Add verr svc (''Unknown canonical endpoint '' @ n)
                        | Some a \<Rightarrow> verr)
                     else verr);
          verr = fold (\<lambda>er verr. Merge verr (ev er)) (HTTPErrors svc) verr;
          verr = fold (\<lambda>er verr. Merge verr (ev er)) (Errors http) verr
      in verr)"

section \<open>The evaluation context and the DSL of the API\<close>

text \<open>
  Modelled from the spec: the struct \<open>APIExpr\<close>, whose declaration is missing. The
  spec gives an API a name, a title, a version, a text of terms of service and an
  ordered list of servers; its contact, license and documentation are written by none
  of the functions modelled below and are left out. \<open>DSLFunc\<close> is the closure given
  to \<open>API\<close>; it is stored, not run, so it is a value of the type parameter \<open>'fn\<close>.
\<close>

record 'fn APIExpr =
  APIName :: string
  Title :: string
  Version :: string
  TermsOfService :: string
  APIServers :: "ServerExpr list"
  DSLFunc :: 'fn

text \<open>
  Modelled from the spec: the interface \<open>eval.Expression\<close>, whose declaration is
  missing. A value is what \<open>eval.Current()\<close> can return: the top-level marker, or the
  expression being defined. The type switches of the code tell an API, a service and
  every other type of expression apart; \<open>OtherExpr\<close> carries the name of such a type.
\<close>

datatype 'fn Expression =
    TopExpr
  | APIExpr_node "'fn APIExpr"
  | ServiceExpr_node ServiceExpr
  | ServerExpr_node ServerExpr
  | OtherExpr string

fun TypeName :: "'fn Expression \<Rightarrow> string" where
  "TypeName TopExpr = ''eval.TopExpr''"
| "TypeName (APIExpr_node e) = ''*expr.APIExpr''"
| "TypeName (ServiceExpr_node e) = ''*expr.ServiceExpr''"
| "TypeName (ServerExpr_node e) = ''*expr.ServerExpr''"
| "TypeName (OtherExpr k) = k"

text \<open>
  Modelled from the spec: the diagnostics of the package \<open>eval\<close>, whose source is
  missing. A diagnostic is an error reported with its message, or an incompatible use
  of a DSL function, which the spec has name the call and the type of the current
  expression.
\<close>

datatype diagnostic = Reported string | Incompatible string string

text \<open>
  Modelled from the spec: the global state of an evaluation, held by the packages
  \<open>eval\<close> and \<open>expr\<close> in declarations that are missing. It is \<open>Root.API\<close> (a
  pointer, nil being \<open>None\<close>), the stack of the expressions being defined (the
  current one last) and the diagnostics reported so far. The stack holds the
  expressions themselves; a write through the pointer \<open>eval.Current()\<close> returns is a
  write to the last entry of the stack.
\<close>

record 'fn Context =
  Root_API :: "'fn APIExpr option"
  Stack :: "'fn Expression list"
  Context_Errors :: "diagnostic list"

text \<open>
  Modelled from the spec: \<open>eval.Current()\<close>, whose source is missing. The spec gives
  it as the active construction target; at the top level, where no expression is being
  defined, it is the top-level marker.
\<close>

definition Current :: "'fn Context \<Rightarrow> 'fn Expression" where
  "Current ctx = (if Stack ctx = [] then TopExpr else last (Stack ctx))"

text \<open>
  Modelled from the spec: a write through the pointer that \<open>eval.Current()\<close> returned.
  The current expression is replaced by its new value.
\<close>

definition set_Current :: "'fn Expression \<Rightarrow> 'fn Context \<Rightarrow> 'fn Context" where
  "set_Current e ctx = ctx\<lparr>Stack := butlast (Stack ctx) @ [e]\<rparr>"

text \<open>
  Modelled from the spec: \<open>eval.ReportError\<close>, whose source is missing. The spec has
  a diagnostic accumulated, never raised.
\<close>

definition ReportError :: "string \<Rightarrow> 'fn Context \<Rightarrow> 'fn Context" where
  "ReportError msg ctx = ctx\<lparr>Context_Errors := Context_Errors ctx @ [Reported msg]\<rparr>"

text \<open>
  Modelled from the spec: \<open>eval.IncompatibleDSL\<close>, whose source is missing. The
  diagnostic names the call, which the model takes as the argument \<open>caller\<close>, and the
  type of the current expression.
\<close>

definition IncompatibleDSL :: "string \<Rightarrow> 'fn Context \<Rightarrow> 'fn Context" where
  "IncompatibleDSL caller ctx =
     ctx\<lparr>Context_Errors := Context_Errors ctx @ [Incompatible caller (TypeName (Current ctx))]\<rparr>"

text \<open>
  Modelled from the spec: \<open>eval.Execute(closure, target)\<close>, whose source is missing.
  It pushes the target, invokes the closure, pops, and reports whether the closure ran
  without a diagnostic. The model also returns the target as the closure left it,
  which the code reaches through the pointer it passed.
\<close>

definition Execute ::
  "('fn Context \<Rightarrow> 'fn Context) \<Rightarrow> 'fn Expression \<Rightarrow> 'fn Context
     \<Rightarrow> bool \<times> 'fn Expression \<times> 'fn Context" where
  "Execute fn def ctx =
     (let ctx' = fn (ctx\<lparr>Stack := Stack ctx @ [def]\<rparr>);
          def' = (if Stack ctx' = [] then def else last (Stack ctx'))
      in (length (Context_Errors ctx') \<le> length (Context_Errors ctx), def',
          ctx'\<lparr>Stack := butlast (Stack ctx')\<rparr>))"

text \<open>
  Modelled from the spec: \<open>expr.NewAPIExpr\<close>, whose source is missing. The new API
  has the given name and closure; its other fields are empty.
\<close>

definition NewAPIExpr :: "string \<Rightarrow> 'fn \<Rightarrow> 'fn APIExpr" where
  "NewAPIExpr name fn =
     \<lparr>APIName = name, Title = '''', Version = '''', TermsOfService = '''', APIServers = [],
      DSLFunc = fn\<rparr>"

text \<open>\<open>API\<close>: the returned pointer and the state after the call.\<close>

definition API :: "string \<Rightarrow> 'fn \<Rightarrow> 'fn Context \<Rightarrow> 'fn APIExpr option \<times> 'fn Context" where
  "API name fn ctx =
     (if name = '''' then (None, ReportError ''API first argument cannot be empty'' ctx)
      else if Current ctx \<noteq> TopExpr then (None, IncompatibleDSL ''API'' ctx)
      else (let api = NewAPIExpr name fn in (Some api, ctx\<lparr>Root_API := Some api\<rparr>)))"

text \<open>
  \<open>Server\<close>. The variadic argument \<open>fn\<close> is a list of closures; a closure is a
  transformer of the state.
\<close>

definition Server ::
  "string \<Rightarrow> ('fn Context \<Rightarrow> 'fn Context) list \<Rightarrow> 'fn Context \<Rightarrow> 'fn Context" where
  "Server url fn ctx =
     (let ctx = (if length fn > 1 then ReportError ''too many arguments given to Server'' ctx
                 else ctx);
          server = \<lparr>URL = url\<rparr>;
          (server, ctx) =
            (if length fn > 0 then
               (case Execute (fn ! 0) (ServerExpr_node server) ctx of
                  (ok, ServerExpr_node s, ctx') \<Rightarrow> (s, ctx')
                | (ok, other, ctx') \<Rightarrow> (server, ctx'))
             else (server, ctx));
          ctx = (if url = '''' then ReportError ''Server URL cannot be empty'' ctx else ctx)
      in case Current ctx of
           APIExpr_node e \<Rightarrow>
             set_Current (APIExpr_node (e\<lparr>APIServers := APIServers e @ [server]\<rparr>)) ctx
         | ServiceExpr_node e \<Rightarrow>
             set_Current (ServiceExpr_node (e\<lparr>Servers := Servers e @ [server]\<rparr>)) ctx
         | other \<Rightarrow> IncompatibleDSL ''Server'' ctx)"

section \<open>Example designs\<close>

text \<open>
  The examples name a route by a string and have no mapped attributes and no HTTP
  errors.
\<close>

definition example_service ::
  "string \<Rightarrow> string list \<Rightarrow> string list \<Rightarrow> string \<Rightarrow> string HTTPEndpointExpr list
     \<Rightarrow> (string, unit, unit) HTTPServiceExpr" where
  "example_service name urls paths parent endpoints =
     \<lparr>ServiceExpr = \<lparr>Name = name, Description = '''', Servers = map (\<lambda>u. \<lparr>URL = u\<rparr>) urls\<rparr>,
      Paths = paths, Params = None, Headers = None, ParentName = parent,
      CanonicalEndpointName = '''', HTTPEndpoints = endpoints, HTTPErrors = []\<rparr>"

text \<open>
  A parent service whose endpoint \<open>show\<close> has one route, a child of it, a service
  without endpoints and a child of that, a service whose endpoint \<open>show\<close> has no route
  and a child of that. A design is a root path and a list of services.
\<close>

definition parent_service :: "(string, unit, unit) HTTPServiceExpr" where
  "parent_service =
     example_service ''parent'' [] [''/a''] '''' [\<lparr>EndpointName = ''show'', Routes = [''GET /'']\<rparr>]"

definition child_service :: "(string, unit, unit) HTTPServiceExpr" where
  "child_service = example_service ''child'' [] [''/b/{id}''] ''parent'' []"

definition bare_service :: "(string, unit, unit) HTTPServiceExpr" where
  "bare_service = example_service ''bare'' [] [] '''' []"

definition stray_service :: "(string, unit, unit) HTTPServiceExpr" where
  "stray_service = example_service ''stray'' [] [''/b''] ''bare'' []"

definition routeless_service :: "(string, unit, unit) HTTPServiceExpr" where
  "routeless_service =
     example_service ''routeless'' [] [] '''' [\<lparr>EndpointName = ''show'', Routes = []\<rparr>]"

definition kid_service :: "(string, unit, unit) HTTPServiceExpr" where
  "kid_service = example_service ''kid'' [] [] ''routeless'' []"

definition example_http ::
  "string \<Rightarrow> (string, unit, unit) HTTPServiceExpr list \<Rightarrow> (string, unit, unit) HTTPExpr" where
  "example_http root services = \<lparr>Path = root, Services = services, Errors = []\<rparr>"

text \<open>
  The full paths of the routes of the examples: one route with one full path, one with
  two; for any other route the call does not return.
\<close>

definition example_rfp :: "string \<Rightarrow> failure + string list" where
  "example_rfp r =
     (if r = ''GET /'' then Inr [''/a'']
      else if r = ''GET both'' then Inr [''/a'', ''/v2/a'']
      else Inl NoReturn)"

text \<open>
  The results of \<open>url.Parse\<close> at two URLs that parse and at one string that does not
  (it has no scheme before its colon); the example takes every other string as one
  that does not parse.
\<close>

definition example_parse :: "string \<Rightarrow> url_URL option \<times> string option" where
  "example_parse rawURL =
     (if rawURL = ''http://example.com'' then
        (Some \<lparr>Scheme = ''http'', Host = ''example.com''\<rparr>, None)
      else if rawURL = ''https://example.com'' then
        (Some \<lparr>Scheme = ''https'', Host = ''example.com''\<rparr>, None)
      else if rawURL = '':'' then (None, Some ''missing protocol scheme'')
      else (None, Some ''not an example''))"

text \<open>The state at the top level of a fresh evaluation.\<close>

definition top_level :: "nat Context" where
  "top_level = \<lparr>Root_API = None, Stack = [], Context_Errors = []\<rparr>"

section \<open>Facts about the library functions\<close>

declare path_Join.simps [simp del]

lemma httppath_Clean_abs_x: "httppath_Clean ''//x'' = ''/x''"
  by (simp add: httppath_Clean_def)

lemma path_Join_root: "path_Join [''/''] = ''/''"
  by (simp add: path_Join.simps path_Clean_def)

lemma path_Join_api: "path_Join [''/api/''] = ''/api''"
  by (simp add: path_Join.simps path_Clean_def)

lemma path_Join_single: "path_Join [p] = (if p = '''' then '''' else path_Clean p)"
  by (simp add: path_Join.simps)

lemma join_a_b: "httppath_Clean (path_Join [path_Join [''/a''], ''/b/{id}'']) = ''/a/b/{id}''"
  by (simp add: httppath_Clean_def path_Join.simps path_Clean_def)

section \<open>Facts about the examples\<close>

lemma example_service_fields:
  "ServiceName (example_service name urls paths parent endpoints) = name"
  "Params (example_service name urls paths parent endpoints) = None"
  "Headers (example_service name urls paths parent endpoints) = None"
  "ParentName (example_service name urls paths parent endpoints) = parent"
  "CanonicalEndpointName (example_service name urls paths parent endpoints) = ''''"
  "HTTPEndpoints (example_service name urls paths parent endpoints) = endpoints"
  "HTTPErrors (example_service name urls paths parent endpoints) = []"
  "Paths (example_service name urls paths parent endpoints) = paths"
  by (simp_all add: example_service_def ServiceName_def)

lemma example_http_fields:
  "Errors (example_http root services) = []" "Path (example_http root services) = root"
  "Services (example_http root services) = services"
  by (simp_all add: example_http_def)

lemma CanonicalEndpoint_example:
  "CanonicalEndpoint (example_service name urls paths parent endpoints) =
     find (\<lambda>a. EndpointName a = ''show'') endpoints"
  by (simp add: CanonicalEndpoint_def Endpoint_def example_service_fields)

lemma Service_example:
  "Service (example_http root services) name = find (\<lambda>res. ServiceName res = name) services"
  by (simp add: Service_def example_http_fields)

lemma Parent_example:
  "Parent (example_http root services) (example_service name urls paths parent endpoints) =
     (if parent = '''' then None else find (\<lambda>res. ServiceName res = parent) services)"
  by (simp add: Parent_def Service_example example_service_fields split: option.splits)

section \<open>Schemes\<close>

lemma Schemes_loop_parsed:
  "\<forall>s \<in> set ss. snd (parse (URL s)) = None \<Longrightarrow> Schemes_loop parse ss acc = Inr acc"
  by (induction ss arbitrary: acc) (auto split: prod.splits)

lemma Schemes_loop_contract:
  "\<forall>x. snd (parse x) \<noteq> None \<longrightarrow> fst (parse x) = None \<Longrightarrow>
   Schemes_loop parse ss acc =
     (if \<forall>s \<in> set ss. snd (parse (URL s)) = None then Inr acc
      else Inl NilPointerDereference)"
proof (induction ss arbitrary: acc)
  case Nil
  then show ?case by simp
next
  case (Cons s ss)
  obtain u err where p: "parse (URL s) = (u, err)"
    by (cases "parse (URL s)")
  show ?case
  proof (cases err)
    case None
    with p Cons show ?thesis by simp
  next
    case (Some e)
    with p Cons.prems have "u = None"
      by (metis fst_conv option.distinct(1) snd_conv)
    with p Some show ?thesis by simp
  qed
qed

text \<open>
  C10: when every server URL of a service parses (the error is nil), \<open>Schemes\<close>
  returns nil. A scheme is recorded only in the branch of a parse error; when
  \<open>parse\<close> returns a nil URL with every error, as \<open>url.Parse\<close> does, that branch
  dereferences nil, so \<open>Schemes\<close> returns nil or panics and never returns a scheme.
\<close>

theorem Schemes_all_parsed_nil:
  "((\<forall>s \<in> set (Servers (ServiceExpr svc)). snd (parse (URL s)) = None)
      \<longrightarrow> Schemes parse svc = Inr []) \<and>
   ((\<forall>x. snd (parse x) \<noteq> None \<longrightarrow> fst (parse x) = None)
      \<longrightarrow> Schemes parse svc =
            (if \<forall>s \<in> set (Servers (ServiceExpr svc)). snd (parse (URL s)) = None
             then Inr [] else Inl NilPointerDereference))"
  by (simp add: Schemes_def Schemes_loop_parsed Schemes_loop_contract)

theorem Schemes_all_parsed_nil_witness:
  "Schemes example_parse
     (example_service ''svc'' [''http://example.com'', ''https://example.com''] [] '''' [])
     = Inr [] \<and>
   Schemes example_parse (example_service ''svc'' ['':''] [] '''' []) = Inl NilPointerDereference"
proof -
  have contract: "\<forall>x. snd (example_parse x) \<noteq> None \<longrightarrow> fst (example_parse x) = None"
    by (simp add: example_parse_def)
  show ?thesis
    using Schemes_all_parsed_nil
            [of "example_service ''svc'' [''http://example.com'', ''https://example.com''] [] '''' []"
                example_parse]
          Schemes_all_parsed_nil [of "example_service ''svc'' ['':''] [] '''' []" example_parse]
          contract
    by (simp add: example_service_def example_parse_def)
qed

text \<open>
  C1: a service with the one server \<open>http://example.com\<close>, which parses without an
  error and with the scheme \<open>http\<close>: the claim gives the list of that scheme, the code
  returns nil.
\<close>

theorem Schemes_parsed_server_no_scheme:
  "snd (example_parse ''http://example.com'') = None \<and>
   map_option Scheme (fst (example_parse ''http://example.com'')) = Some ''http'' \<and>
   Schemes example_parse (example_service ''svc'' [''http://example.com''] [] '''' []) = Inr []"
  by (simp add: Schemes_def example_service_def example_parse_def)

section \<open>Full paths\<close>

lemma FullPaths_loop_append:
  "FullPaths_loop rfp http svc ps acc =
     (case FullPaths_loop rfp http svc ps [] of Inl f \<Rightarrow> Inl f | Inr out \<Rightarrow> Inr (acc @ out))"
proof (induction ps arbitrary: acc)
  case Nil
  show ?case by simp
next
  case (Cons p ps)
  show ?case
  proof (cases "HasPrefix p ''//''")
    case True
    then show ?thesis
      using Cons.IH [of "acc @ [httppath_Clean p]"] Cons.IH [of "[httppath_Clean p]"]
      by (simp split: sum.splits)
  next
    case False
    show ?thesis
    proof (cases "basePaths rfp http svc")
      case (Inl f)
      with False show ?thesis by simp
    next
      case (Inr bases)
      let ?new = "map (\<lambda>base. httppath_Clean (path_Join [base, p])) bases"
      show ?thesis
        using False Inr Cons.IH [of "acc @ ?new"] Cons.IH [of ?new]
        by (simp split: sum.splits)
    qed
  qed
qed

lemma FullPaths_loop_split:
  "FullPaths_loop rfp http svc (pre @ post) acc =
     (case FullPaths_loop rfp http svc pre acc of
        Inl f \<Rightarrow> Inl f
      | Inr a \<Rightarrow> FullPaths_loop rfp http svc post a)"
  by (induction pre arbitrary: acc) (auto split: sum.splits)

lemma FullPaths_loop_bases:
  "basePaths rfp http svc = Inr bases \<Longrightarrow>
   FullPaths_loop rfp http svc ps acc =
     Inr (acc @ concat (map (\<lambda>p. if HasPrefix p ''//'' then [httppath_Clean p]
                                   else map (\<lambda>base. httppath_Clean (path_Join [base, p])) bases) ps))"
  by (induction ps arbitrary: acc) auto

lemma basePaths_cases:
  "basePaths rfp http svc =
     (case Parent http svc of
        None \<Rightarrow> Inr [Path http]
      | Some par \<Rightarrow>
          (case CanonicalEndpoint par of
             None \<Rightarrow> Inr []
           | Some ca \<Rightarrow>
               (case Routes ca of
                  [] \<Rightarrow> Inr []
                | r # rs \<Rightarrow>
                    (case rfp r of
                       Inl f \<Rightarrow> Inl f
                     | Inr fps \<Rightarrow> Inr (map (\<lambda>q. path_Join [q]) fps)))))"
  by (simp add: basePaths_def Let_def split: option.splits list.splits sum.splits)

lemma Parent_cases:
  "Parent http svc = (if ParentName svc = '''' then None else Service http (ParentName svc))"
  by (simp add: Parent_def split: option.splits)

lemma expansion_empty:
  "concat (map (\<lambda>p. if HasPrefix p ''//'' then [httppath_Clean p]
                     else map (\<lambda>base. httppath_Clean (path_Join [base, p])) bases) ps) = []
   \<longleftrightarrow> ps = [] \<or> (bases = [] \<and> (\<forall>p \<in> set ps. \<not> HasPrefix p ''//''))"
  by (induction ps) auto

text \<open>
  C3, as amended: when the base paths of the service are returned, \<open>FullPaths\<close>
  returns the cleaned root path alone for a service without fragments, and else the
  expansion of the fragments in their order, each fragment that starts with \<open>//\<close>
  giving itself cleaned and each other fragment giving its join with every base path,
  in the order of the base paths; nothing is removed. The result is empty exactly
  when the service has fragments, none of them starts with \<open>//\<close>, and there is no
  base path. The base paths are the root path of the API when the service has no
  parent; with a parent they are the full paths of the first route of its canonical
  endpoint, and there is none when the parent has no canonical endpoint or that
  endpoint has no route.
\<close>

theorem FullPaths_expansion:
  assumes "basePaths rfp http svc = Inr bases"
  shows "FullPaths rfp http svc =
           Inr (if Paths svc = [] then [path_Join [Path http]]
                else concat (map (\<lambda>p. if HasPrefix p ''//'' then [httppath_Clean p]
                                       else map (\<lambda>base. httppath_Clean (path_Join [base, p])) bases)
                               (Paths svc))) \<and>
         (FullPaths rfp http svc = Inr [] \<longleftrightarrow>
            Paths svc \<noteq> [] \<and> bases = [] \<and> (\<forall>p \<in> set (Paths svc). \<not> HasPrefix p ''//'')) \<and>
         Inr bases =
           (case Parent http svc of
              None \<Rightarrow> Inr [Path http]
            | Some par \<Rightarrow>
                (case CanonicalEndpoint par of
                   None \<Rightarrow> Inr []
                 | Some ca \<Rightarrow>
                     (case Routes ca of
                        [] \<Rightarrow> Inr []
                      | r # rs \<Rightarrow>
                          (case rfp r of
                             Inl f \<Rightarrow> Inl f
                           | Inr fps \<Rightarrow> Inr (map (\<lambda>q. path_Join [q]) fps)))))"
proof -
  have bases: "Inr bases =
           (case Parent http svc of
              None \<Rightarrow> Inr [Path http]
            | Some par \<Rightarrow>
                (case CanonicalEndpoint par of
                   None \<Rightarrow> Inr []
                 | Some ca \<Rightarrow>
                     (case Routes ca of
                        [] \<Rightarrow> Inr []
                      | r # rs \<Rightarrow>
                          (case rfp r of
                             Inl f \<Rightarrow> Inl f
                           | Inr fps \<Rightarrow> Inr (map (\<lambda>q. path_Join [q]) fps)))))"
    using assms basePaths_cases [of rfp http svc] by simp
  have eq: "FullPaths rfp http svc =
           Inr (if Paths svc = [] then [path_Join [Path http]]
                else concat (map (\<lambda>p. if HasPrefix p ''//'' then [httppath_Clean p]
                                       else map (\<lambda>base. httppath_Clean (path_Join [base, p])) bases)
                               (Paths svc)))"
    using assms by (simp add: FullPaths_def FullPaths_loop_bases)
  have empty: "FullPaths rfp http svc = Inr [] \<longleftrightarrow>
            Paths svc \<noteq> [] \<and> bases = [] \<and> (\<forall>p \<in> set (Paths svc). \<not> HasPrefix p ''//'')"
  proof (cases "Paths svc = []")
    case True
    with eq show ?thesis by simp
  next
    case False
    have "FullPaths rfp http svc = Inr [] \<longleftrightarrow>
            bases = [] \<and> (\<forall>p \<in> set (Paths svc). \<not> HasPrefix p ''//'')"
      using False expansion_empty [of bases "Paths svc"] unfolding eq by simp
    with False show ?thesis by simp
  qed
  from eq empty bases show ?thesis by (intro conjI)
qed

theorem FullPaths_expansion_witness:
  "FullPaths example_rfp
     (example_http ''/''
        [example_service ''both'' [] [] '''' [\<lparr>EndpointName = ''show'', Routes = [''GET both'']\<rparr>]])
     (example_service ''sub'' [] [''/b'', ''//x'', ''/b''] ''both'' [])
     = Inr [''/a/b'', ''/v2/a/b'', ''/x'', ''/a/b'', ''/v2/a/b'']"
proof -
  have b: "basePaths example_rfp
             (example_http ''/''
                [example_service ''both'' [] [] ''''
                   [\<lparr>EndpointName = ''show'', Routes = [''GET both'']\<rparr>]])
             (example_service ''sub'' [] [''/b'', ''//x'', ''/b''] ''both'' [])
           = Inr [''/a'', ''/v2/a'']"
    unfolding basePaths_def Parent_example
    by (simp add: example_service_fields CanonicalEndpoint_example example_rfp_def
        path_Join.simps path_Clean_def)
  have j: "httppath_Clean (path_Join [''/a'', ''/b'']) = ''/a/b''"
          "httppath_Clean (path_Join [''/v2/a'', ''/b'']) = ''/v2/a/b''"
    by (simp_all add: httppath_Clean_def path_Join.simps path_Clean_def)
  have h: "\<not> HasPrefix ''/b'' ''//''" "HasPrefix ''//x'' ''//''"
    by (simp_all add: HasPrefix_def)
  show ?thesis
    using FullPaths_expansion [OF b]
    by (simp add: example_service_fields h j httppath_Clean_abs_x)
qed

text \<open>
  C3 as stated fails: the service \<open>stray\<close> declares the fragment \<open>/b\<close> and names the
  parent \<open>bare\<close>, which exists and has no endpoint. Its full paths are the empty list.
\<close>

theorem FullPaths_empty_counterexample:
  "FullPaths example_rfp (example_http ''/'' [bare_service, stray_service]) stray_service
     = Inr []"
proof -
  have "basePaths example_rfp (example_http ''/'' [bare_service, stray_service]) stray_service
          = Inr []"
    unfolding basePaths_def stray_service_def Parent_example
    by (simp add: bare_service_def example_service_fields CanonicalEndpoint_example)
  moreover have "Paths stray_service = [''/b''] \<and> \<not> HasPrefix ''/b'' ''//''"
    by (simp add: stray_service_def example_service_fields HasPrefix_def)
  ultimately show ?thesis
    by (simp add: FullPaths_def)
qed

lemma FullPaths_absolute_at:
  assumes abs: "HasPrefix p ''//''" and ps: "Paths svc = pre @ p # post"
  shows "FullPaths rfp http svc =
     (case FullPaths_loop rfp http svc pre [] of
        Inl f \<Rightarrow> Inl f
      | Inr a \<Rightarrow>
          (case FullPaths_loop rfp http svc post [] of
             Inl f \<Rightarrow> Inl f
           | Inr b \<Rightarrow> Inr (a @ httppath_Clean p # b)))"
proof -
  have "FullPaths rfp http svc = FullPaths_loop rfp http svc (pre @ p # post) []"
    using ps by (simp add: FullPaths_def)
  also have "\<dots> =
     (case FullPaths_loop rfp http svc pre [] of
        Inl f \<Rightarrow> Inl f
      | Inr a \<Rightarrow> FullPaths_loop rfp http svc post (a @ [httppath_Clean p]))"
    using abs by (simp add: FullPaths_loop_split split: sum.splits)
  also have "\<dots> =
     (case FullPaths_loop rfp http svc pre [] of
        Inl f \<Rightarrow> Inl f
      | Inr a \<Rightarrow>
          (case FullPaths_loop rfp http svc post [] of
             Inl f \<Rightarrow> Inl f
           | Inr b \<Rightarrow> Inr (a @ httppath_Clean p # b)))"
    by (simp add: FullPaths_loop_append [of _ _ _ post "_ @ _"] split: sum.splits)
  finally show ?thesis .
qed

text \<open>
  C5: a fragment \<open>p\<close> that starts with \<open>//\<close>, wherever it stands among the fragments
  of a service, contributes exactly \<open>httppath.Clean(p)\<close>, between the paths of the
  fragments before it and those of the fragments after it; neither the parent nor the
  root path of the API enters. A service whose one fragment is \<open>//x\<close> has the full
  paths \<open>["/x"]\<close>, whatever its parent and the root path.
\<close>

theorem FullPaths_absolute_fragment:
  "(HasPrefix p ''//'' \<and> Paths svc = pre @ p # post \<longrightarrow>
      FullPaths rfp http svc =
        (case FullPaths_loop rfp http svc pre [] of
           Inl f \<Rightarrow> Inl f
         | Inr a \<Rightarrow>
             (case FullPaths_loop rfp http svc post [] of
                Inl f \<Rightarrow> Inl f
              | Inr b \<Rightarrow> Inr (a @ httppath_Clean p # b)))) \<and>
   (Paths svc = [''//x''] \<longrightarrow> FullPaths rfp http svc = Inr [''/x''])"
proof (intro conjI impI)
  assume "HasPrefix p ''//'' \<and> Paths svc = pre @ p # post"
  then show "FullPaths rfp http svc =
        (case FullPaths_loop rfp http svc pre [] of
           Inl f \<Rightarrow> Inl f
         | Inr a \<Rightarrow>
             (case FullPaths_loop rfp http svc post [] of
                Inl f \<Rightarrow> Inl f
              | Inr b \<Rightarrow> Inr (a @ httppath_Clean p # b)))"
    using FullPaths_absolute_at [of p svc pre post rfp http] by blast
next
  assume ps: "Paths svc = [''//x'']"
  have "HasPrefix ''//x'' ''//''"
    by (simp add: HasPrefix_def)
  moreover from ps have "Paths svc = [] @ ''//x'' # []"
    by simp
  ultimately show "FullPaths rfp http svc = Inr [''/x'']"
    using FullPaths_absolute_at [of "''//x''" svc "[]" "[]" rfp http]
    by (simp add: httppath_Clean_abs_x)
qed

theorem FullPaths_absolute_fragment_witness:
  "FullPaths example_rfp
     (example_http ''/api''
        [example_service ''parent'' [] [''/a''] ''''
           [\<lparr>EndpointName = ''show'', Routes = [''GET /'']\<rparr>]])
     (example_service ''abs'' [] [''//x''] ''parent'' []) = Inr [''/x''] \<and>
   FullPaths example_rfp (example_http ''/'' [])
     (example_service ''abs'' [] [''/y'', ''//x''] '''' []) = Inr [''/y'', ''/x'']"
proof -
  have p1: "Paths (example_service ''abs'' [] [''//x''] ''parent'' []) = [''//x'']"
    by (simp add: example_service_fields)
  have h: "HasPrefix ''//x'' ''//'' \<and>
           Paths (example_service ''abs'' [] [''/y'', ''//x''] '''' []) = [''/y''] @ ''//x'' # []"
    by (simp add: example_service_fields HasPrefix_def)
  have b: "basePaths example_rfp (example_http ''/'' [])
             (example_service ''abs'' [] [''/y'', ''//x''] '''' []) = Inr [''/'']"
    by (simp add: basePaths_def Parent_example example_http_fields)
  have y: "\<not> HasPrefix ''/y'' ''//'' \<and> httppath_Clean (path_Join [''/'', ''/y'']) = ''/y''"
    by (simp add: HasPrefix_def httppath_Clean_def path_Join.simps path_Clean_def)
  show ?thesis
    using FullPaths_absolute_fragment
            [of "''//x''" "example_service ''abs'' [] [''//x''] ''parent'' []" "[]" "[]"
                example_rfp
                "example_http ''/api''
                   [example_service ''parent'' [] [''/a''] ''''
                      [\<lparr>EndpointName = ''show'', Routes = [''GET /'']\<rparr>]]"]
          FullPaths_absolute_fragment
            [of "''//x''" "example_service ''abs'' [] [''/y'', ''//x''] '''' []" "[''/y'']" "[]"
                example_rfp "example_http ''/'' []"]
          p1 h b y
    by (simp add: httppath_Clean_abs_x)
qed

text \<open>
  C4: a service with the single fragment \<open>/b/{id}\<close> whose parent's canonical
  endpoint has a first route with the full paths \<open>["/a"]\<close> has the full paths
  \<open>["/a/b/{id}"]\<close>. In general a fragment that does not start with \<open>//\<close>
  contributes its join with every base path; the base paths are the full paths of the
  first route of the canonical endpoint of the parent (what the call for that route
  returns, which is where the parent chain is followed), and the root path of the API
  when the service has no parent: no parent name, or no service of that name.
\<close>

theorem FullPaths_joins_base_paths:
  "(Paths svc = [''/b/{id}''] \<and> Parent http svc = Some par \<and> CanonicalEndpoint par = Some ca \<and>
    Routes ca = r # rs \<and> rfp r = Inr [''/a'']
      \<longrightarrow> FullPaths rfp http svc = Inr [''/a/b/{id}'']) \<and>
   (Paths svc = pre @ p # post \<and> \<not> HasPrefix p ''//''
      \<longrightarrow> FullPaths rfp http svc =
           (case FullPaths_loop rfp http svc pre [] of
              Inl f \<Rightarrow> Inl f
            | Inr a \<Rightarrow>
                (case basePaths rfp http svc of
                   Inl f \<Rightarrow> Inl f
                 | Inr bases \<Rightarrow>
                     (case FullPaths_loop rfp http svc post [] of
                        Inl f \<Rightarrow> Inl f
                      | Inr b \<Rightarrow>
                          Inr (a @ map (\<lambda>base. httppath_Clean (path_Join [base, p])) bases @ b))))) \<and>
   basePaths rfp http svc =
     (case Parent http svc of
        None \<Rightarrow> Inr [Path http]
      | Some par \<Rightarrow>
          (case CanonicalEndpoint par of
             None \<Rightarrow> Inr []
           | Some ca \<Rightarrow>
               (case Routes ca of
                  [] \<Rightarrow> Inr []
                | r # rs \<Rightarrow>
                    (case rfp r of
                       Inl f \<Rightarrow> Inl f
                     | Inr fps \<Rightarrow> Inr (map (\<lambda>q. path_Join [q]) fps))))) \<and>
   Parent http svc = (if ParentName svc = '''' then None else Service http (ParentName svc))"
proof -
  have general: "FullPaths rfp http svc =
           (case FullPaths_loop rfp http svc pre [] of
              Inl f \<Rightarrow> Inl f
            | Inr a \<Rightarrow>
                (case basePaths rfp http svc of
                   Inl f \<Rightarrow> Inl f
                 | Inr bases \<Rightarrow>
                     (case FullPaths_loop rfp http svc post [] of
                        Inl f \<Rightarrow> Inl f
                      | Inr b \<Rightarrow>
                          Inr (a @ map (\<lambda>base. httppath_Clean (path_Join [base, p])) bases @ b))))"
    if ps: "Paths svc = pre @ p # post" and rel: "\<not> HasPrefix p ''//''"
  proof -
    have "FullPaths rfp http svc = FullPaths_loop rfp http svc (pre @ p # post) []"
      using ps by (simp add: FullPaths_def)
    also have "\<dots> =
       (case FullPaths_loop rfp http svc pre [] of
          Inl f \<Rightarrow> Inl f
        | Inr a \<Rightarrow>
            (case basePaths rfp http svc of
               Inl f \<Rightarrow> Inl f
             | Inr bases \<Rightarrow>
                 FullPaths_loop rfp http svc post
                   (a @ map (\<lambda>base. httppath_Clean (path_Join [base, p])) bases)))"
      using rel by (simp add: FullPaths_loop_split split: sum.splits)
    also have "\<dots> =
           (case FullPaths_loop rfp http svc pre [] of
              Inl f \<Rightarrow> Inl f
            | Inr a \<Rightarrow>
                (case basePaths rfp http svc of
                   Inl f \<Rightarrow> Inl f
                 | Inr bases \<Rightarrow>
                     (case FullPaths_loop rfp http svc post [] of
                        Inl f \<Rightarrow> Inl f
                      | Inr b \<Rightarrow>
                          Inr (a @ map (\<lambda>base. httppath_Clean (path_Join [base, p])) bases @ b))))"
      by (simp add: FullPaths_loop_append [of _ _ _ post "_ @ _"] split: sum.splits)
    finally show ?thesis .
  qed
  have concrete: "FullPaths rfp http svc = Inr [''/a/b/{id}'']"
    if "Paths svc = [''/b/{id}'']" "Parent http svc = Some par" "CanonicalEndpoint par = Some ca"
       "Routes ca = r # rs" "rfp r = Inr [''/a'']"
  proof -
    have "basePaths rfp http svc = Inr [path_Join [''/a'']]"
      using that by (simp add: basePaths_cases)
    moreover have "\<not> HasPrefix ''/b/{id}'' ''//''"
      by (simp add: HasPrefix_def)
    ultimately show ?thesis
      using that(1) by (simp add: FullPaths_def join_a_b)
  qed
  show ?thesis
    using general concrete by (simp add: basePaths_cases Parent_cases)
qed

theorem FullPaths_joins_base_paths_witness:
  "FullPaths example_rfp (example_http ''/'' [parent_service, child_service]) child_service
     = Inr [''/a/b/{id}''] \<and>
   FullPaths example_rfp (example_http ''/api'' [])
     (example_service ''alone'' [] [''/b/{id}''] '''' []) = Inr [''/api/b/{id}'']"
proof -
  have 1: "Paths child_service = [''/b/{id}''] \<and>
    Parent (example_http ''/'' [parent_service, child_service]) child_service
      = Some parent_service \<and>
    CanonicalEndpoint parent_service = Some \<lparr>EndpointName = ''show'', Routes = [''GET /'']\<rparr> \<and>
    Routes \<lparr>EndpointName = ''show'', Routes = [''GET /'']\<rparr> = ''GET /'' # [] \<and>
    example_rfp ''GET /'' = Inr [''/a'']"
    unfolding child_service_def Parent_example
    by (simp add: parent_service_def example_service_fields CanonicalEndpoint_example
        example_rfp_def)
  have 2: "Paths (example_service ''alone'' [] [''/b/{id}''] '''' []) = [] @ ''/b/{id}'' # [] \<and>
    \<not> HasPrefix ''/b/{id}'' ''//''"
    by (simp add: example_service_fields HasPrefix_def)
  have 3: "basePaths example_rfp (example_http ''/api'' [])
             (example_service ''alone'' [] [''/b/{id}''] '''' []) = Inr [''/api'']"
    by (simp add: basePaths_def Parent_example example_http_fields)
  have 4: "httppath_Clean (path_Join [''/api'', ''/b/{id}'']) = ''/api/b/{id}''"
    by (simp add: httppath_Clean_def path_Join.simps path_Clean_def)
  show ?thesis
    using FullPaths_joins_base_paths
            [of child_service "example_http ''/'' [parent_service, child_service]" parent_service
                "\<lparr>EndpointName = ''show'', Routes = [''GET /'']\<rparr>" "''GET /''" "[]" example_rfp]
          FullPaths_joins_base_paths
            [of "example_service ''alone'' [] [''/b/{id}''] '''' []" "example_http ''/api'' []"
                _ _ _ _ example_rfp "[]" "''/b/{id}''" "[]"]
          1 2 3 4
    by simp
qed

text \<open>
  C6, as amended: a service without fragments has one full path, the root path of the
  API passed through \<open>path.Join\<close>: the empty string when the root path is empty, and
  else the root path cleaned. For the root path \<open>/\<close> the result is \<open>["/"]\<close>.
\<close>

theorem FullPaths_no_fragment:
  "Paths svc = [] \<Longrightarrow>
   FullPaths rfp http svc = Inr [path_Join [Path http]] \<and>
   path_Join [Path http] = (if Path http = '''' then '''' else path_Clean (Path http)) \<and>
   (Path http = ''/'' \<longrightarrow> FullPaths rfp http svc = Inr [''/''])"
  by (simp add: FullPaths_def path_Join_single path_Clean_def)

theorem FullPaths_no_fragment_witness:
  "FullPaths example_rfp (example_http ''/'' [bare_service]) bare_service = Inr [''/'']"
proof -
  have "Paths bare_service = []"
    by (simp add: bare_service_def example_service_fields)
  from FullPaths_no_fragment [OF this, of example_rfp "example_http ''/'' [bare_service]"]
  show ?thesis by (simp add: example_http_fields path_Join_root)
qed

text \<open>
  C6 as stated fails: with the root path \<open>/api/\<close> the one full path of a service
  without fragments is \<open>/api\<close>, which is not the root path.
\<close>

theorem FullPaths_no_fragment_counterexample:
  "Paths bare_service = [] \<and> Path (example_http ''/api/'' [bare_service]) = ''/api/'' \<and>
   FullPaths example_rfp (example_http ''/api/'' [bare_service]) bare_service = Inr [''/api''] \<and>
   FullPaths example_rfp (example_http ''/api/'' [bare_service]) bare_service
     \<noteq> Inr [Path (example_http ''/api/'' [bare_service])]"
  by (simp add: FullPaths_def bare_service_def example_service_fields example_http_fields
      path_Join_api)

section \<open>The URI template\<close>

lemma find_None_names: "find (\<lambda>a. f a = name) xs = None \<longleftrightarrow> (\<forall>a \<in> set xs. f a \<noteq> name)"
  by (auto simp: find_None_iff)

lemma find_Some_names: "find (\<lambda>a. f a = name) xs = Some a \<Longrightarrow> a \<in> set xs \<and> f a = name"
  by (auto simp: find_Some_iff)

lemma URITemplate_cases:
  "URITemplate rfp svc =
     (case CanonicalEndpoint svc of
        None \<Rightarrow> Inr ''''
      | Some ca \<Rightarrow>
          (case Routes ca of
             [] \<Rightarrow> Inr ''''
           | r # rs \<Rightarrow>
               (case rfp r of
                  Inl f \<Rightarrow> Inl f
                | Inr [] \<Rightarrow> Inl IndexOutOfRange
                | Inr (p # ps) \<Rightarrow> Inr p)))"
  by (simp add: URITemplate_def split: option.splits list.splits sum.splits)

text \<open>
  C7, as amended: \<open>URITemplate\<close> returns the empty string when the service has no
  canonical endpoint or that endpoint has no route; when the canonical endpoint has a
  route and the full paths of its first route are returned and not empty, it returns
  the first of them. The canonical endpoint is the endpoint named
  \<open>CanonicalEndpointName\<close>, or \<open>show\<close> when that name is empty; \<open>Endpoint\<close> finds
  an endpoint of the service with the given name, and none only when the service has
  none.
\<close>

theorem URITemplate_first_full_path:
  "((CanonicalEndpoint svc = None \<or> map_option Routes (CanonicalEndpoint svc) = Some [])
      \<longrightarrow> URITemplate rfp svc = Inr '''') \<and>
   (CanonicalEndpoint svc = Some ca \<and> Routes ca = r # rs \<and> rfp r = Inr (p # ps)
      \<longrightarrow> URITemplate rfp svc = Inr p) \<and>
   CanonicalEndpoint svc =
     Endpoint svc (if CanonicalEndpointName svc = '''' then ''show''
                   else CanonicalEndpointName svc) \<and>
   (Endpoint svc name = None \<longleftrightarrow> (\<forall>a \<in> set (HTTPEndpoints svc). EndpointName a \<noteq> name)) \<and>
   (\<forall>a. Endpoint svc name = Some a \<longrightarrow> a \<in> set (HTTPEndpoints svc) \<and> EndpointName a = name)"
proof -
  have "URITemplate rfp svc = Inr ''''"
    if "CanonicalEndpoint svc = None \<or> map_option Routes (CanonicalEndpoint svc) = Some []"
    using that by (auto simp: URITemplate_cases split: option.splits)
  moreover have "URITemplate rfp svc = Inr p"
    if "CanonicalEndpoint svc = Some ca \<and> Routes ca = r # rs \<and> rfp r = Inr (p # ps)"
    using that by (simp add: URITemplate_cases)
  moreover have "CanonicalEndpoint svc =
     Endpoint svc (if CanonicalEndpointName svc = '''' then ''show''
                   else CanonicalEndpointName svc)"
    by (simp add: CanonicalEndpoint_def)
  moreover have "Endpoint svc name = None \<longleftrightarrow>
      (\<forall>a \<in> set (HTTPEndpoints svc). EndpointName a \<noteq> name)"
    unfolding Endpoint_def by (rule find_None_names)
  moreover have "\<forall>a. Endpoint svc name = Some a \<longrightarrow>
      a \<in> set (HTTPEndpoints svc) \<and> EndpointName a = name"
    unfolding Endpoint_def using find_Some_names by fast
  ultimately show ?thesis by blast
qed

theorem URITemplate_first_full_path_witness:
  "URITemplate example_rfp parent_service = Inr ''/a'' \<and>
   URITemplate example_rfp bare_service = Inr '''' \<and>
   URITemplate example_rfp routeless_service = Inr '''' \<and>
   Endpoint parent_service ''show'' = Some \<lparr>EndpointName = ''show'', Routes = [''GET /'']\<rparr> \<and>
   Endpoint parent_service ''list'' = None"
proof -
  have 1: "URITemplate example_rfp parent_service = Inr ''/a''"
    using URITemplate_first_full_path
            [of parent_service example_rfp "\<lparr>EndpointName = ''show'', Routes = [''GET /'']\<rparr>"
                "''GET /''" "[]" "''/a''" "[]"]
    by (simp add: parent_service_def CanonicalEndpoint_example example_rfp_def)
  have 2: "URITemplate example_rfp bare_service = Inr ''''"
    using URITemplate_first_full_path [of bare_service example_rfp]
    by (simp add: bare_service_def CanonicalEndpoint_example)
  have 3: "URITemplate example_rfp routeless_service = Inr ''''"
    using URITemplate_first_full_path [of routeless_service example_rfp]
    by (simp add: routeless_service_def CanonicalEndpoint_example)
  have 4: "Endpoint parent_service ''show'' = Some \<lparr>EndpointName = ''show'', Routes = [''GET /'']\<rparr>"
    by (simp add: Endpoint_def parent_service_def example_service_fields)
  have 5: "Endpoint parent_service ''list'' = None"
    by (simp add: Endpoint_def parent_service_def example_service_fields)
  from 1 2 3 4 5 show ?thesis by simp
qed

text \<open>
  C7 as stated fails: a service whose canonical endpoint \<open>show\<close> has one route, for
  which the call for the full paths returns the empty list (as it does for a route
  that adds its path to the empty full paths of its service). The canonical endpoint
  and its route exist, there is no first entry, and \<open>URITemplate\<close> returns neither a
  path nor the empty string: indexing the empty list panics.
\<close>

theorem URITemplate_no_full_path_counterexample:
  "map_option Routes
     (CanonicalEndpoint
        (example_service ''stray'' [] [''/b''] ''bare''
           [\<lparr>EndpointName = ''show'', Routes = [''GET /'']\<rparr>])) = Some [''GET /''] \<and>
   URITemplate (\<lambda>r. Inr [])
     (example_service ''stray'' [] [''/b''] ''bare''
        [\<lparr>EndpointName = ''show'', Routes = [''GET /'']\<rparr>]) = Inl IndexOutOfRange"
  by (simp add: URITemplate_cases CanonicalEndpoint_example)

section \<open>Validation\<close>

lemma fold_append: "fold (\<lambda>er verr. verr @ ev er) ers verr = verr @ concat (map ev ers)"
  by (induction ers arbitrary: verr) simp_all

lemma Validate_unfolded:
  "Validate mv ev http svc =
     ((case Params svc of None \<Rightarrow> [] | Some ps \<Rightarrow> mv ps ''parameters'' svc) @
      (case Headers svc of None \<Rightarrow> [] | Some hs \<Rightarrow> mv hs ''headers'' svc) @
      (if ParentName svc = '''' then []
       else
         (case Service http (ParentName svc) of
            None \<Rightarrow> [(ServiceName svc, ''Parent service '' @ ParentName svc @ '' not found'')]
          | Some p \<Rightarrow>
              (if CanonicalEndpoint p = None then
                 [(ServiceName svc,
                   ''Parent service '' @ ParentName svc @ '' has no canonical endpoint'')]
               else []) @
              (if ParentName p = ServiceName svc then
                 [(ServiceName svc, ''Parent service '' @ ParentName svc @ '' is also child'')]
               else []))) @
      (if CanonicalEndpointName svc = '''' then []
       else
         (case Endpoint svc (CanonicalEndpointName svc) of
            None \<Rightarrow> [(ServiceName svc, ''Unknown canonical endpoint '' @ CanonicalEndpointName svc)]
          | Some a \<Rightarrow> []))) @
     concat (map ev (HTTPErrors svc)) @ concat (map ev (Errors http))"
  unfolding Validate_def Let_def Add_def Merge_def fold_append
  by (cases "Params svc"; cases "Headers svc"; cases "Service http (ParentName svc)";
      cases "Endpoint svc (CanonicalEndpointName svc)"; simp)

text \<open>
  C8, as amended: the diagnostics of \<open>Validate\<close>, in order. For a service with a
  parent name, \<open>Parent service %s not found\<close> is added exactly when no service has
  that name. When one has, \<open>Parent service %s has no canonical endpoint\<close> is added
  exactly when the parent has no canonical endpoint, whatever the routes of that
  endpoint, and \<open>Parent service %s is also child\<close> exactly when the parent name of
  the parent is the name of this service; both are added when both hold. All
  diagnostics are in the one list returned.
\<close>

theorem Validate_diagnostics:
  "Validate mv ev http svc =
     ((case Params svc of None \<Rightarrow> [] | Some ps \<Rightarrow> mv ps ''parameters'' svc) @
      (case Headers svc of None \<Rightarrow> [] | Some hs \<Rightarrow> mv hs ''headers'' svc) @
      (if ParentName svc = '''' then []
       else
         (case Service http (ParentName svc) of
            None \<Rightarrow> [(ServiceName svc, ''Parent service '' @ ParentName svc @ '' not found'')]
          | Some p \<Rightarrow>
              (if CanonicalEndpoint p = None then
                 [(ServiceName svc,
                   ''Parent service '' @ ParentName svc @ '' has no canonical endpoint'')]
               else []) @
              (if ParentName p = ServiceName svc then
                 [(ServiceName svc, ''Parent service '' @ ParentName svc @ '' is also child'')]
               else []))) @
      (if CanonicalEndpointName svc = '''' then []
       else
         (case Endpoint svc (CanonicalEndpointName svc) of
            None \<Rightarrow> [(ServiceName svc, ''Unknown canonical endpoint '' @ CanonicalEndpointName svc)]
          | Some a \<Rightarrow> []))) @
     concat (map ev (HTTPErrors svc)) @ concat (map ev (Errors http)) \<and>
   (Service http name = None \<longleftrightarrow> (\<forall>s \<in> set (Services http). ServiceName s \<noteq> name))"
proof -
  have "Service http name = None \<longleftrightarrow> (\<forall>s \<in> set (Services http). ServiceName s \<noteq> name)"
    unfolding Service_def by (rule find_None_names)
  with Validate_unfolded [of mv ev http svc] show ?thesis
    by (rule_tac conjI)
qed

theorem Validate_diagnostics_witness:
  "Validate (\<lambda>m ctx s. []) (\<lambda>e. []) (example_http ''/'' [bare_service, stray_service])
       stray_service =
     [(''stray'', ''Parent service bare has no canonical endpoint'')] \<and>
   Validate (\<lambda>m ctx s. []) (\<lambda>e. []) (example_http ''/'' [bare_service, stray_service])
       (example_service ''orphan'' [] [] ''nobody'' []) =
     [(''orphan'', ''Parent service nobody not found'')] \<and>
   Validate (\<lambda>m ctx s. []) (\<lambda>e. []) (example_http ''/'' [bare_service, stray_service])
       (example_service ''bare'' [] [] ''stray'' []) =
     [(''bare'', ''Parent service stray has no canonical endpoint''),
      (''bare'', ''Parent service stray is also child'')] \<and>
   Service (example_http ''/'' [bare_service, stray_service]) ''nobody'' = None"
proof -
  have nobody: "Service (example_http ''/'' [bare_service, stray_service]) ''nobody'' = None"
    by (simp add: Service_example bare_service_def stray_service_def example_service_fields)
  have 1: "Validate (\<lambda>m ctx s. []) (\<lambda>e. []) (example_http ''/'' [bare_service, stray_service])
       stray_service =
     [(''stray'', ''Parent service bare has no canonical endpoint'')]"
    using Validate_diagnostics
            [of "\<lambda>m ctx s. []" "\<lambda>e. []" "example_http ''/'' [bare_service, stray_service]"
                stray_service]
    by (simp add: Service_example bare_service_def stray_service_def example_service_fields
        example_http_fields CanonicalEndpoint_example)
  have 2: "Validate (\<lambda>m ctx s. []) (\<lambda>e. []) (example_http ''/'' [bare_service, stray_service])
       (example_service ''orphan'' [] [] ''nobody'' []) =
     [(''orphan'', ''Parent service nobody not found'')]"
    using Validate_diagnostics
            [of "\<lambda>m ctx s. []" "\<lambda>e. []" "example_http ''/'' [bare_service, stray_service]"
                "example_service ''orphan'' [] [] ''nobody'' []"]
    by (simp add: Service_example bare_service_def stray_service_def example_service_fields
        example_http_fields)
  have 3: "Validate (\<lambda>m ctx s. []) (\<lambda>e. []) (example_http ''/'' [bare_service, stray_service])
       (example_service ''bare'' [] [] ''stray'' []) =
     [(''bare'', ''Parent service stray has no canonical endpoint''),
      (''bare'', ''Parent service stray is also child'')]"
    using Validate_diagnostics
            [of "\<lambda>m ctx s. []" "\<lambda>e. []" "example_http ''/'' [bare_service, stray_service]"
                "example_service ''bare'' [] [] ''stray'' []"]
    by (simp add: Service_example bare_service_def stray_service_def example_service_fields
        example_http_fields CanonicalEndpoint_example)
  from 1 2 3 nobody show ?thesis by simp
qed

text \<open>
  C8 as stated fails: the parent of the service \<open>kid\<close> exists and its canonical
  endpoint has no route, so the parent lacks a canonical endpoint with at least one
  route; \<open>Validate\<close> adds no diagnostic.
\<close>

theorem Validate_routeless_parent_counterexample:
  "Service (example_http ''/'' [routeless_service, kid_service]) (ParentName kid_service)
     = Some routeless_service \<and>
   map_option Routes (CanonicalEndpoint routeless_service) = Some [] \<and>
   Validate (\<lambda>m ctx s. []) (\<lambda>e. []) (example_http ''/'' [routeless_service, kid_service])
     kid_service = []"
proof -
  have "Validate (\<lambda>m ctx s. []) (\<lambda>e. []) (example_http ''/'' [routeless_service, kid_service])
          kid_service = []"
    unfolding Validate_unfolded
    by (simp add: Service_example routeless_service_def kid_service_def example_service_fields
        example_http_fields CanonicalEndpoint_example)
  then show ?thesis
    by (simp add: Service_example routeless_service_def kid_service_def example_service_fields
        CanonicalEndpoint_example)
qed

section \<open>The DSL of the API\<close>

lemma Current_ReportError: "Current (ReportError msg ctx) = Current ctx"
  by (simp add: Current_def ReportError_def)

lemma Current_set_Current: "Current (set_Current e ctx) = e"
  by (simp add: Current_def set_Current_def)

lemma Current_top_level: "Current top_level = TopExpr"
  by (simp add: Current_def top_level_def)

lemma Current_Root_API: "Current (ctx\<lparr>Root_API := api\<rparr>) = Current ctx"
  by (simp add: Current_def)

lemma API_at_top_level:
  "name \<noteq> '''' \<Longrightarrow> Current ctx = TopExpr \<Longrightarrow>
   API name fn ctx = (Some (NewAPIExpr name fn), ctx\<lparr>Root_API := Some (NewAPIExpr name fn)\<rparr>)"
  by (simp add: API_def Let_def)

lemma API_twice:
  "name1 \<noteq> '''' \<Longrightarrow> name2 \<noteq> '''' \<Longrightarrow> Current ctx = TopExpr \<Longrightarrow>
   API name2 fn2 (snd (API name1 fn1 ctx)) =
     (Some (NewAPIExpr name2 fn2), ctx\<lparr>Root_API := Some (NewAPIExpr name2 fn2)\<rparr>)"
  by (simp add: API_at_top_level Current_Root_API)

text \<open>
  C2: at the top level of a fresh evaluation \<open>API("a", f)\<close> succeeds; a second call
  \<open>API("b", g)\<close> succeeds too, reports no diagnostic and replaces the API of the root.
\<close>

theorem API_second_call_overwrites:
  "API ''a'' 1 top_level =
     (Some (NewAPIExpr ''a'' 1), top_level\<lparr>Root_API := Some (NewAPIExpr ''a'' 1)\<rparr>) \<and>
   API ''b'' 2 (snd (API ''a'' 1 top_level)) =
     (Some (NewAPIExpr ''b'' 2), top_level\<lparr>Root_API := Some (NewAPIExpr ''b'' 2)\<rparr>) \<and>
   Context_Errors (snd (API ''b'' 2 (snd (API ''a'' 1 top_level)))) = []"
proof -
  have 1: "API ''a'' 1 top_level =
     (Some (NewAPIExpr ''a'' 1), top_level\<lparr>Root_API := Some (NewAPIExpr ''a'' 1)\<rparr>)"
    by (simp add: API_at_top_level Current_top_level)
  have 2: "API ''b'' 2 (snd (API ''a'' 1 top_level)) =
     (Some (NewAPIExpr ''b'' 2), top_level\<lparr>Root_API := Some (NewAPIExpr ''b'' 2)\<rparr>)"
    by (simp add: API_twice Current_top_level)
  have 3: "Context_Errors (top_level\<lparr>Root_API := Some (NewAPIExpr ''b'' 2)\<rparr>) = []"
    by (simp add: top_level_def)
  from 1 2 3 show ?thesis by simp
qed

lemma Server_no_closure:
  "Server url [] ctx =
     (let ctx' = (if url = '''' then ReportError ''Server URL cannot be empty'' ctx else ctx)
      in case Current ctx' of
           APIExpr_node e \<Rightarrow>
             set_Current (APIExpr_node (e\<lparr>APIServers := APIServers e @ [\<lparr>URL = url\<rparr>]\<rparr>)) ctx'
         | ServiceExpr_node e \<Rightarrow>
             set_Current (ServiceExpr_node (e\<lparr>Servers := Servers e @ [\<lparr>URL = url\<rparr>]\<rparr>)) ctx'
         | other \<Rightarrow> IncompatibleDSL ''Server'' ctx')"
  by (simp add: Server_def Let_def)

text \<open>
  C9: \<open>Server("")\<close> with an API or a service as the current expression reports the
  diagnostic \<open>Server URL cannot be empty\<close> and still appends the server with the empty
  URL to the servers of the current expression; nothing else of the state changes.
\<close>

theorem Server_empty_URL_appended:
  "(Current ctx = APIExpr_node a \<longrightarrow>
      Server '''' [] ctx =
        ctx\<lparr>Stack := butlast (Stack ctx) @
                        [APIExpr_node (a\<lparr>APIServers := APIServers a @ [\<lparr>URL = ''''\<rparr>]\<rparr>)],
            Context_Errors := Context_Errors ctx @ [Reported ''Server URL cannot be empty'']\<rparr> \<and>
      Current (Server '''' [] ctx) =
        APIExpr_node (a\<lparr>APIServers := APIServers a @ [\<lparr>URL = ''''\<rparr>]\<rparr>)) \<and>
   (Current ctx = ServiceExpr_node s \<longrightarrow>
      Server '''' [] ctx =
        ctx\<lparr>Stack := butlast (Stack ctx) @
                        [ServiceExpr_node (s\<lparr>Servers := Servers s @ [\<lparr>URL = ''''\<rparr>]\<rparr>)],
            Context_Errors := Context_Errors ctx @ [Reported ''Server URL cannot be empty'']\<rparr> \<and>
      Current (Server '''' [] ctx) =
        ServiceExpr_node (s\<lparr>Servers := Servers s @ [\<lparr>URL = ''''\<rparr>]\<rparr>))"
proof (intro conjI impI)
  assume c: "Current ctx = APIExpr_node a"
  then show "Server '''' [] ctx =
        ctx\<lparr>Stack := butlast (Stack ctx) @
                        [APIExpr_node (a\<lparr>APIServers := APIServers a @ [\<lparr>URL = ''''\<rparr>]\<rparr>)],
            Context_Errors := Context_Errors ctx @ [Reported ''Server URL cannot be empty'']\<rparr>"
    by (simp add: Server_no_closure Current_ReportError) (simp add: set_Current_def ReportError_def)
  from c show "Current (Server '''' [] ctx) =
        APIExpr_node (a\<lparr>APIServers := APIServers a @ [\<lparr>URL = ''''\<rparr>]\<rparr>)"
    by (simp add: Server_no_closure Current_ReportError Current_set_Current)
next
  assume c: "Current ctx = ServiceExpr_node s"
  then show "Server '''' [] ctx =
        ctx\<lparr>Stack := butlast (Stack ctx) @
                        [ServiceExpr_node (s\<lparr>Servers := Servers s @ [\<lparr>URL = ''''\<rparr>]\<rparr>)],
            Context_Errors := Context_Errors ctx @ [Reported ''Server URL cannot be empty'']\<rparr>"
    by (simp add: Server_no_closure Current_ReportError) (simp add: set_Current_def ReportError_def)
  from c show "Current (Server '''' [] ctx) =
        ServiceExpr_node (s\<lparr>Servers := Servers s @ [\<lparr>URL = ''''\<rparr>]\<rparr>)"
    by (simp add: Server_no_closure Current_ReportError Current_set_Current)
qed

theorem Server_empty_URL_appended_witness:
  "Server '''' [] (top_level\<lparr>Stack := [APIExpr_node (NewAPIExpr ''a'' 1)]\<rparr>) =
     \<lparr>Root_API = None,
      Stack = [APIExpr_node ((NewAPIExpr ''a'' 1)\<lparr>APIServers := [\<lparr>URL = ''''\<rparr>]\<rparr>)],
      Context_Errors = [Reported ''Server URL cannot be empty'']\<rparr> \<and>
   Server '''' []
       (top_level\<lparr>Stack := [ServiceExpr_node
                                \<lparr>Name = ''svc'', Description = '''',
                                 Servers = [\<lparr>URL = ''https://a''\<rparr>]\<rparr>]\<rparr>) =
     \<lparr>Root_API = None,
      Stack = [ServiceExpr_node
                 \<lparr>Name = ''svc'', Description = '''',
                  Servers = [\<lparr>URL = ''https://a''\<rparr>, \<lparr>URL = ''''\<rparr>]\<rparr>],
      Context_Errors = [Reported ''Server URL cannot be empty'']\<rparr>"
proof -
  have 1: "Current (top_level\<lparr>Stack := [APIExpr_node (NewAPIExpr ''a'' 1)]\<rparr>) =
             APIExpr_node (NewAPIExpr ''a'' 1)"
    by (simp add: Current_def)
  have 2: "Current (top_level\<lparr>Stack := [ServiceExpr_node
                                \<lparr>Name = ''svc'', Description = '''',
                                 Servers = [\<lparr>URL = ''https://a''\<rparr>]\<rparr>]\<rparr>) =
             ServiceExpr_node \<lparr>Name = ''svc'', Description = '''',
                                 Servers = [\<lparr>URL = ''https://a''\<rparr>]\<rparr>"
    by (simp add: Current_def)
  have 3: "APIServers (NewAPIExpr ''a'' (1::nat)) = []"
    by (simp add: NewAPIExpr_def)
  show ?thesis
    using Server_empty_URL_appended
            [of "top_level\<lparr>Stack := [APIExpr_node (NewAPIExpr ''a'' 1)]\<rparr>" "NewAPIExpr ''a'' 1"]
          Server_empty_URL_appended
            [of "top_level\<lparr>Stack := [ServiceExpr_node
                                  \<lparr>Name = ''svc'', Description = '''',
                                   Servers = [\<lparr>URL = ''https://a''\<rparr>]\<rparr>]\<rparr>" _
                "\<lparr>Name = ''svc'', Description = '''', Servers = [\<lparr>URL = ''https://a''\<rparr>]\<rparr>"]
          1 2 3
    by (simp add: top_level_def)
qed

end
